theory Spec2Isabelle
  imports Main
begin

section \<open>Data model of the school cafe voucher manager (src/src/App.tsx)\<close>

text \<open>
  The two interfaces of the source, \<^verbatim>\<open>Student\<close> and \<^verbatim>\<open>Voucher\<close>, as records. The field
  \<^verbatim>\<open>id\<close> of each is prefixed, since \<open>id\<close> is the identity function of HOL. Commendation
  counts and pence are the integers the program stores; identifiers, names and the ISO
  time stamp are strings.
\<close>

record student =
  student_id :: string
  student_name :: string
  commendations :: int

record voucher =
  voucher_id :: string
  studentId :: string
  studentName :: string
  issuedAt :: string
  amountPence :: int
  redeemed :: bool

datatype page = IssuePage | LogPage

definition TARGET_COMMENDATIONS :: int where
  "TARGET_COMMENDATIONS = 5"

definition VOUCHER_AMOUNT_PENCE :: int where
  "VOUCHER_AMOUNT_PENCE = 290"

definition DEMO_STUDENTS :: "student list" where
  "DEMO_STUDENTS =
     [\<lparr>student_id = ''s1'', student_name = ''Alice Johnson'', commendations = 3\<rparr>,
      \<lparr>student_id = ''s2'', student_name = ''Ben Carter'', commendations = 5\<rparr>,
      \<lparr>student_id = ''s3'', student_name = ''Chloe Singh'', commendations = 1\<rparr>,
      \<lparr>student_id = ''s4'', student_name = ''Daniel O'Neill'', commendations = 4\<rparr>]"

text \<open>
  The state cells of the component \<^verbatim>\<open>App\<close>: the two persisted arrays and the three
  session-only cells. \<^verbatim>\<open>null\<close> is \<open>None\<close>.
\<close>

record app =
  students :: "student list"
  vouchers :: "voucher list"
  selectedStudentId :: "string option"
  activeVoucher :: "voucher option"
  page :: page

section \<open>Loading persisted state: \<^verbatim>\<open>useLocalStorageState\<close>\<close>

text \<open>
  The values \<^verbatim>\<open>JSON.parse\<close> returns. Numbers are the integers the program itself stores;
  the keys of an object are distinct, in the order of the text.
\<close>

datatype json =
    JNull
  | JBool bool
  | JNum int
  | JStr string
  | JArr "json list"
  | JObj "(string \<times> json) list"

text \<open>
  A call of the platform that may throw returns an \<open>outcome\<close>. The initialiser of
  \<^verbatim>\<open>useLocalStorageState\<close> reads three things of its environment, taken as arguments:
  whether \<^verbatim>\<open>window\<close> is defined, \<^verbatim>\<open>window.localStorage.getItem\<close> (which returns
  \<^verbatim>\<open>null\<close> for an absent key) and \<^verbatim>\<open>JSON.parse\<close>. The cast \<^verbatim>\<open>as T\<close> that follows the
  parse is a compile-time annotation and checks nothing: the cell holds whatever value the
  text parses to, so the value of a cell is a \<open>json\<close> and the default is given as one. Only
  a read or a parse that throws reaches the \<^verbatim>\<open>catch\<close>.
\<close>

datatype 'a outcome = Throws | Returns 'a

definition useLocalStorageState ::
  "bool \<Rightarrow> (string \<Rightarrow> string option outcome) \<Rightarrow> (string \<Rightarrow> json outcome) \<Rightarrow> string \<Rightarrow> json \<Rightarrow> json" where
  "useLocalStorageState hasWindow getItem JSON_parse key defaultValue =
     (if \<not> hasWindow then defaultValue
      else case getItem key of
             Throws \<Rightarrow> defaultValue
           | Returns None \<Rightarrow> defaultValue
           | Returns (Some stored) \<Rightarrow>
               (case JSON_parse stored of
                  Throws \<Rightarrow> defaultValue
                | Returns parsed \<Rightarrow> parsed))"

text \<open>
  A \<^verbatim>\<open>Student\<close> and a \<^verbatim>\<open>Voucher\<close> as the values they are at run time, and the reading of a
  value at the declared type: \<open>asRoster\<close> and \<open>asLedger\<close> give the typed array when the value
  is an array of objects whose fields have the declared types, and \<open>None\<close> for every other
  value.
\<close>

definition studentJson :: "student \<Rightarrow> json" where
  "studentJson s =
     JObj [(''id'', JStr (student_id s)), (''name'', JStr (student_name s)),
           (''commendations'', JNum (commendations s))]"

definition voucherJson :: "voucher \<Rightarrow> json" where
  "voucherJson v =
     JObj [(''id'', JStr (voucher_id v)), (''studentId'', JStr (studentId v)),
           (''studentName'', JStr (studentName v)), (''issuedAt'', JStr (issuedAt v)),
           (''amountPence'', JNum (amountPence v)), (''redeemed'', JBool (redeemed v))]"

definition rosterJson :: "student list \<Rightarrow> json" where
  "rosterJson roster = JArr (map studentJson roster)"

definition ledgerJson :: "voucher list \<Rightarrow> json" where
  "ledgerJson ledger = JArr (map voucherJson ledger)"

fun field :: "string \<Rightarrow> json \<Rightarrow> json option" where
  "field k (JObj members) = map_of members k"
| "field k _ = None"

fun asString :: "json option \<Rightarrow> string option" where
  "asString (Some (JStr x)) = Some x"
| "asString _ = None"

fun asNumber :: "json option \<Rightarrow> int option" where
  "asNumber (Some (JNum x)) = Some x"
| "asNumber _ = None"

fun asBoolean :: "json option \<Rightarrow> bool option" where
  "asBoolean (Some (JBool x)) = Some x"
| "asBoolean _ = None"

definition asStudent :: "json \<Rightarrow> student option" where
  "asStudent j =
     (case (asString (field ''id'' j), asString (field ''name'' j),
            asNumber (field ''commendations'' j)) of
        (Some i, Some n, Some c) \<Rightarrow> Some \<lparr>student_id = i, student_name = n, commendations = c\<rparr>
      | _ \<Rightarrow> None)"

definition asVoucher :: "json \<Rightarrow> voucher option" where
  "asVoucher j =
     (case (asString (field ''id'' j), asString (field ''studentId'' j),
            asString (field ''studentName'' j), asString (field ''issuedAt'' j),
            asNumber (field ''amountPence'' j), asBoolean (field ''redeemed'' j)) of
        (Some i, Some si, Some sn, Some at, Some a, Some r) \<Rightarrow>
          Some \<lparr>voucher_id = i, studentId = si, studentName = sn, issuedAt = at,
                amountPence = a, redeemed = r\<rparr>
      | _ \<Rightarrow> None)"

fun asRoster :: "json \<Rightarrow> student list option" where
  "asRoster (JArr elements) = those (map asStudent elements)"
| "asRoster _ = None"

fun asLedger :: "json \<Rightarrow> voucher list option" where
  "asLedger (JArr elements) = those (map asVoucher elements)"
| "asLedger _ = None"

text \<open>The cells of \<^verbatim>\<open>App\<close> at their initial values, for a loaded roster and ledger.\<close>

definition initialState :: "student list \<Rightarrow> voucher list \<Rightarrow> app" where
  "initialState roster ledger =
     \<lparr>students = roster,
      vouchers = ledger,
      selectedStudentId = (case DEMO_STUDENTS of [] \<Rightarrow> None | s # _ \<Rightarrow> Some (student_id s)),
      activeVoucher = None,
      page = IssuePage\<rparr>"

text \<open>
  The first render of \<^verbatim>\<open>App\<close>. Both cells are loaded; then the body evaluates
  \<^verbatim>\<open>students.find(...)\<close>. On a roster cell that is not an array (\<^verbatim>\<open>null\<close>, a boolean, a
  number, a string, an object) this throws a \<^verbatim>\<open>TypeError\<close>: \<^verbatim>\<open>null\<close> has no properties and
  the other values have no method \<^verbatim>\<open>find\<close>. The ledger cell is not read on the first
  render, which shows the issue page. When both cells have their declared types the render
  is that of the typed state, which the handlers below work on. \<open>Untyped\<close> is what is left:
  the roster cell is an array, and some element of it or the ledger cell is not of the
  declared type; what the source does there depends on the elements and is not traced.
\<close>

datatype rendering = Rendered app | TypeError | Untyped

definition App ::
  "bool \<Rightarrow> (string \<Rightarrow> string option outcome) \<Rightarrow> (string \<Rightarrow> json outcome) \<Rightarrow> rendering" where
  "App hasWindow getItem JSON_parse =
     (let studentsCell = useLocalStorageState hasWindow getItem JSON_parse
                           ''cafe-voucher-students'' (rosterJson DEMO_STUDENTS);
          vouchersCell = useLocalStorageState hasWindow getItem JSON_parse
                           ''cafe-voucher-log'' (ledgerJson [])
      in case studentsCell of
           JArr elements \<Rightarrow>
             (case (asRoster studentsCell, asLedger vouchersCell) of
                (Some roster, Some ledger) \<Rightarrow> Rendered (initialState roster ledger)
              | _ \<Rightarrow> Untyped)
         | _ \<Rightarrow> TypeError)"

text \<open>The state of a first run: the storage holds neither key.\<close>

definition firstRun :: app where
  "firstRun = initialState DEMO_STUDENTS []"

text \<open>
  Stored records for the examples. \<open>ledgerText\<close> is the text the program writes for a
  ledger of one voucher; \<open>parseStored\<close> is \<^verbatim>\<open>JSON.parse\<close> on the three texts the examples
  store (\<^verbatim>\<open>null\<close>, the ledger text, and \<^verbatim>\<open>{oops\<close>, which is not JSON) and is applied to no
  other text.
\<close>

definition storedVoucher :: voucher where
  "storedVoucher =
     \<lparr>voucher_id = ''v1'', studentId = ''s2'', studentName = ''Ben Carter'',
      issuedAt = ''2024-05-01T09:30:00.000Z'', amountPence = 290, redeemed = False\<rparr>"

definition ledgerText :: string where
  \<open>ledgerText = ''[{"id":"v1","studentId":"s2","studentName":"Ben Carter","issuedAt":"2024-05-01T09:30:00.000Z","amountPence":290,"redeemed":false}]''\<close>

definition parseStored :: "string \<Rightarrow> json outcome" where
  "parseStored stored =
     (if stored = ''null'' then Returns JNull
      else if stored = ledgerText then Returns (ledgerJson [storedVoucher])
      else Throws)"

definition storageNullRoster :: "string \<Rightarrow> string option outcome" where
  "storageNullRoster key =
     (if key = ''cafe-voucher-students'' then Returns (Some ''null'')
      else if key = ''cafe-voucher-log'' then Returns (Some ledgerText)
      else Returns None)"

definition storageBrokenRoster :: "string \<Rightarrow> string option outcome" where
  "storageBrokenRoster key =
     (if key = ''cafe-voucher-students'' then Returns (Some ''{oops'')
      else if key = ''cafe-voucher-log'' then Returns (Some ledgerText)
      else Returns None)"

definition storageLedgerOnly :: "string \<Rightarrow> string option outcome" where
  "storageLedgerOnly key =
     (if key = ''cafe-voucher-log'' then Returns (Some ledgerText) else Returns None)"

definition storageEmpty :: "string \<Rightarrow> string option outcome" where
  "storageEmpty key = Returns None"

section \<open>The state setters\<close>

text \<open>
  \<^verbatim>\<open>setStudents\<close> and \<^verbatim>\<open>setVouchers\<close> are the \<^verbatim>\<open>setAndStore\<close> of their own cell: the
  updater is applied to the previous value of that cell and the result becomes its next
  value. The write of the result to \<^verbatim>\<open>localStorage\<close> that follows changes no cell (its
  failure is caught and ignored) and is left out of the state.
\<close>

definition setStudents :: "(student list \<Rightarrow> student list) \<Rightarrow> app \<Rightarrow> app" where
  "setStudents updater st = st\<lparr>students := updater (students st)\<rparr>"

definition setVouchers :: "(voucher list \<Rightarrow> voucher list) \<Rightarrow> app \<Rightarrow> app" where
  "setVouchers updater st = st\<lparr>vouchers := updater (vouchers st)\<rparr>"

definition setSelectedStudentId :: "string option \<Rightarrow> app \<Rightarrow> app" where
  "setSelectedStudentId v st = st\<lparr>selectedStudentId := v\<rparr>"

definition setActiveVoucher :: "voucher option \<Rightarrow> app \<Rightarrow> app" where
  "setActiveVoucher v st = st\<lparr>activeVoucher := v\<rparr>"

definition setPage :: "page \<Rightarrow> app \<Rightarrow> app" where
  "setPage p st = st\<lparr>page := p\<rparr>"

section \<open>Derived values of a render\<close>

text \<open>
  \<^verbatim>\<open>students.find(...) ?? students[0] ?? null\<close>. The predicate compares a student's id, a
  string, with the selected id, which may be \<^verbatim>\<open>null\<close>: no student matches \<^verbatim>\<open>null\<close>.
  \<^verbatim>\<open>students[0]\<close> of an empty array is \<^verbatim>\<open>undefined\<close>, which falls through to \<^verbatim>\<open>null\<close>.
\<close>

definition selectedStudent :: "student list \<Rightarrow> string option \<Rightarrow> student option" where
  "selectedStudent roster selectedId =
     (case List.find (\<lambda>student. Some (student_id student) = selectedId) roster of
        Some student \<Rightarrow> Some student
      | None \<Rightarrow> (case roster of [] \<Rightarrow> None | first # _ \<Rightarrow> Some first))"

definition canIssue :: "app \<Rightarrow> bool" where
  "canIssue st =
     (case selectedStudent (students st) (selectedStudentId st) of
        None \<Rightarrow> False
      | Some sel \<Rightarrow> TARGET_COMMENDATIONS \<le> commendations sel)"

section \<open>The event handlers\<close>

text \<open>
  Each handler runs to completion on the render of the current state, so the values it
  closes over (\<^verbatim>\<open>selectedStudent\<close>, \<^verbatim>\<open>canIssue\<close>) are those of the state it updates. The
  results of \<^verbatim>\<open>generateId()\<close> and of \<^verbatim>\<open>new Date().toISOString()\<close> are arguments.
\<close>

definition handleAdjustCommendations :: "string \<Rightarrow> int \<Rightarrow> app \<Rightarrow> app" where
  "handleAdjustCommendations k delta =
     setStudents (map (\<lambda>student.
        if student_id student = k
        then student\<lparr>commendations := max 0 (commendations student + delta)\<rparr>
        else student))"

text \<open>
  The body of \<^verbatim>\<open>handleIssueVoucher\<close>, with the module constant \<^verbatim>\<open>VOUCHER_AMOUNT_PENCE\<close> it
  reads as the argument \<open>amount\<close>, so that a build with another amount can be stated.
  \<open>newVoucher\<close> is the object literal bound to \<^verbatim>\<open>voucher\<close> there.
\<close>

definition newVoucher :: "int \<Rightarrow> string \<Rightarrow> string \<Rightarrow> student \<Rightarrow> voucher" where
  "newVoucher amount generatedId nowIso sel =
     \<lparr>voucher_id = generatedId, studentId = student_id sel, studentName = student_name sel,
      issuedAt = nowIso, amountPence = amount, redeemed = False\<rparr>"

definition issueVoucherAt :: "int \<Rightarrow> string \<Rightarrow> string \<Rightarrow> app \<Rightarrow> app" where
  "issueVoucherAt amount generatedId nowIso st =
     (case selectedStudent (students st) (selectedStudentId st) of
        None \<Rightarrow> st
      | Some sel \<Rightarrow>
          if \<not> canIssue st then st
          else
            let voucher = newVoucher amount generatedId nowIso sel
            in setActiveVoucher (Some voucher)
                 (setStudents (map (\<lambda>student.
                      if student_id student = student_id sel
                      then student\<lparr>commendations :=
                             max 0 (commendations student - TARGET_COMMENDATIONS)\<rparr>
                      else student))
                   (setVouchers (\<lambda>previous. voucher # previous) st)))"

definition handleIssueVoucher :: "string \<Rightarrow> string \<Rightarrow> app \<Rightarrow> app" where
  "handleIssueVoucher = issueVoucherAt VOUCHER_AMOUNT_PENCE"

definition handleReopenVoucher :: "voucher \<Rightarrow> app \<Rightarrow> app" where
  "handleReopenVoucher v st = setPage IssuePage (setActiveVoucher (Some v) st)"

definition handleToggleRedeemed :: "string \<Rightarrow> app \<Rightarrow> app" where
  "handleToggleRedeemed voucherId =
     setVouchers (map (\<lambda>v.
        if voucher_id v = voucherId then v\<lparr>redeemed := \<not> redeemed v\<rparr> else v))"

text \<open>
  The actions the user interface offers, and a session as a sequence of them. Selecting a
  student, changing the tab and closing the preview are the inline \<^verbatim>\<open>onClick\<close> handlers.
\<close>

datatype action =
    Adjust string int
  | Issue string string
  | Toggle string
  | Reopen voucher
  | Select string
  | Show page
  | ClosePreview

fun stepAt :: "int \<Rightarrow> action \<Rightarrow> app \<Rightarrow> app" where
  "stepAt amount (Adjust k delta) st = handleAdjustCommendations k delta st"
| "stepAt amount (Issue generatedId nowIso) st = issueVoucherAt amount generatedId nowIso st"
| "stepAt amount (Toggle voucherId) st = handleToggleRedeemed voucherId st"
| "stepAt amount (Reopen v) st = handleReopenVoucher v st"
| "stepAt amount (Select k) st = setSelectedStudentId (Some k) st"
| "stepAt amount (Show p) st = setPage p st"
| "stepAt amount ClosePreview st = setActiveVoucher None st"

definition step :: "action \<Rightarrow> app \<Rightarrow> app" where
  "step = stepAt VOUCHER_AMOUNT_PENCE"

fun run :: "action list \<Rightarrow> app \<Rightarrow> app" where
  "run [] st = st"
| "run (a # as) st = run as (step a st)"

section \<open>Vocabulary of the properties\<close>

text \<open>
  The fields of a voucher other than \<^verbatim>\<open>redeemed\<close>, and the two snapshot fields among them.
\<close>

definition immutableFields :: "voucher \<Rightarrow> string \<times> string \<times> string \<times> string \<times> int" where
  "immutableFields v = (voucher_id v, studentId v, studentName v, issuedAt v, amountPence v)"

definition snapshot :: "voucher \<Rightarrow> string \<times> int" where
  "snapshot v = (studentName v, amountPence v)"

text \<open>
  \<open>v'\<close> is a later form of the voucher \<open>v\<close>: the fields other than \<^verbatim>\<open>redeemed\<close> are those of
  \<open>v\<close>, and \<^verbatim>\<open>redeemed\<close> differs only if the id of \<open>v\<close> is among the toggled ids \<open>T\<close>.
\<close>

definition laterForm :: "string set \<Rightarrow> voucher \<Rightarrow> voucher \<Rightarrow> bool" where
  "laterForm T v' v \<longleftrightarrow>
     immutableFields v' = immutableFields v \<and> (redeemed v' \<noteq> redeemed v \<longrightarrow> voucher_id v \<in> T)"

text \<open>
  The vouchers a session creates, oldest first: an \<open>Issue\<close> action creates one exactly when
  the button is enabled in the state it meets.
\<close>

definition issued :: "action \<Rightarrow> app \<Rightarrow> voucher list" where
  "issued a st =
     (case a of
        Issue generatedId nowIso \<Rightarrow>
          (case selectedStudent (students st) (selectedStudentId st) of
             None \<Rightarrow> []
           | Some sel \<Rightarrow>
               if canIssue st then [newVoucher VOUCHER_AMOUNT_PENCE generatedId nowIso sel] else [])
      | _ \<Rightarrow> [])"

fun issuedBy :: "action list \<Rightarrow> app \<Rightarrow> voucher list" where
  "issuedBy [] st = []"
| "issuedBy (a # as) st = issued a st @ issuedBy as (step a st)"

text \<open>
  What can happen to the program and its roster after a voucher was issued: an action of
  the user on a build whose configured amount is the given one, or any edit of the roster
  (\<^verbatim>\<open>setStudents\<close> with any updater; renaming a student is one).
\<close>

datatype change = ByUser int action | RosterEdit "student list \<Rightarrow> student list"

fun applyChange :: "change \<Rightarrow> app \<Rightarrow> app" where
  "applyChange (ByUser amount a) st = stepAt amount a st"
| "applyChange (RosterEdit updater) st = setStudents updater st"

fun applyChanges :: "change list \<Rightarrow> app \<Rightarrow> app" where
  "applyChanges [] st = st"
| "applyChanges (c # cs) st = applyChanges cs (applyChange c st)"

definition rename :: "string \<Rightarrow> string \<Rightarrow> student list \<Rightarrow> student list" where
  "rename k newName =
     map (\<lambda>student. if student_id student = k then student\<lparr>student_name := newName\<rparr> else student)"

text \<open>The roster is well formed: no commendation count is negative.\<close>

definition nonNegative :: "student list \<Rightarrow> bool" where
  "nonNegative roster = list_all (\<lambda>student. 0 \<le> commendations student) roster"

section \<open>The setters and handlers, cell by cell\<close>

lemma setters_students [simp]:
  "students (setStudents f st) = f (students st)"
  "students (setVouchers g st) = students st"
  "students (setSelectedStudentId k st) = students st"
  "students (setActiveVoucher v st) = students st"
  "students (setPage p st) = students st"
  by (simp_all add: setStudents_def setVouchers_def setSelectedStudentId_def
      setActiveVoucher_def setPage_def)

lemma setters_vouchers [simp]:
  "vouchers (setStudents f st) = vouchers st"
  "vouchers (setVouchers g st) = g (vouchers st)"
  "vouchers (setSelectedStudentId k st) = vouchers st"
  "vouchers (setActiveVoucher v st) = vouchers st"
  "vouchers (setPage p st) = vouchers st"
  by (simp_all add: setStudents_def setVouchers_def setSelectedStudentId_def
      setActiveVoucher_def setPage_def)

lemma setters_selected [simp]:
  "selectedStudentId (setStudents f st) = selectedStudentId st"
  "selectedStudentId (setVouchers g st) = selectedStudentId st"
  "selectedStudentId (setSelectedStudentId k st) = k"
  "selectedStudentId (setActiveVoucher v st) = selectedStudentId st"
  "selectedStudentId (setPage p st) = selectedStudentId st"
  by (simp_all add: setStudents_def setVouchers_def setSelectedStudentId_def
      setActiveVoucher_def setPage_def)

lemma setters_active [simp]:
  "activeVoucher (setStudents f st) = activeVoucher st"
  "activeVoucher (setVouchers g st) = activeVoucher st"
  "activeVoucher (setSelectedStudentId k st) = activeVoucher st"
  "activeVoucher (setActiveVoucher v st) = v"
  "activeVoucher (setPage p st) = activeVoucher st"
  by (simp_all add: setStudents_def setVouchers_def setSelectedStudentId_def
      setActiveVoucher_def setPage_def)

lemma setters_page [simp]:
  "page (setStudents f st) = page st"
  "page (setVouchers g st) = page st"
  "page (setSelectedStudentId k st) = page st"
  "page (setActiveVoucher v st) = page st"
  "page (setPage p st) = p"
  by (simp_all add: setStudents_def setVouchers_def setSelectedStudentId_def
      setActiveVoucher_def setPage_def)

lemma setStudents_same: "f (students st) = students st \<Longrightarrow> setStudents f st = st"
  by (simp add: setStudents_def)

lemma setVouchers_same: "g (vouchers st) = vouchers st \<Longrightarrow> setVouchers g st = st"
  by (simp add: setVouchers_def)

lemma canIssue_selected:
  "canIssue st \<Longrightarrow> \<exists>sel. selectedStudent (students st) (selectedStudentId st) = Some sel
     \<and> TARGET_COMMENDATIONS \<le> commendations sel"
  by (auto simp: canIssue_def split: option.splits)

lemma issueVoucherAt_refused: "\<not> canIssue st \<Longrightarrow> issueVoucherAt amount g n st = st"
  by (simp add: issueVoucherAt_def split: option.splits)

lemma issueVoucherAt_vouchers:
  "canIssue st \<Longrightarrow> selectedStudent (students st) (selectedStudentId st) = Some sel \<Longrightarrow>
   vouchers (issueVoucherAt amount g n st) = newVoucher amount g n sel # vouchers st"
  by (simp add: issueVoucherAt_def Let_def)

lemma issueVoucherAt_students:
  "canIssue st \<Longrightarrow> selectedStudent (students st) (selectedStudentId st) = Some sel \<Longrightarrow>
   students (issueVoucherAt amount g n st) =
     map (\<lambda>student. if student_id student = student_id sel
            then student\<lparr>commendations := max 0 (commendations student - TARGET_COMMENDATIONS)\<rparr>
            else student) (students st)"
  by (simp add: issueVoucherAt_def Let_def)

lemma issueVoucherAt_active:
  "canIssue st \<Longrightarrow> selectedStudent (students st) (selectedStudentId st) = Some sel \<Longrightarrow>
   activeVoucher (issueVoucherAt amount g n st) = Some (newVoucher amount g n sel)"
  by (simp add: issueVoucherAt_def Let_def)

lemma issueVoucherAt_selected [simp]:
  "selectedStudentId (issueVoucherAt amount g n st) = selectedStudentId st"
  by (simp add: issueVoucherAt_def Let_def split: option.splits)

lemmas model_defs =
  firstRun_def initialState_def DEMO_STUDENTS_def TARGET_COMMENDATIONS_def
  VOUCHER_AMOUNT_PENCE_def selectedStudent_def canIssue_def setStudents_def setVouchers_def
  setSelectedStudentId_def setActiveVoucher_def setPage_def handleAdjustCommendations_def
  newVoucher_def issueVoucherAt_def handleIssueVoucher_def handleReopenVoucher_def
  handleToggleRedeemed_def step_def issued_def rename_def snapshot_def Let_def

section \<open>The selected student\<close>

text \<open>
  C7. For every roster and every selected id, also \<^verbatim>\<open>null\<close>: when some student has the
  selected id, the selected student is the first student of the roster with that id; when
  the id is \<^verbatim>\<open>null\<close> or no student has it, the selected student is the first student of the
  roster in its current order; and the result is \<^verbatim>\<open>null\<close> exactly when the roster is empty.
\<close>

theorem selectedStudent_match_or_first:
  "(k \<in> student_id ` set roster \<longrightarrow>
      (\<exists>i < length roster. selectedStudent roster (Some k) = Some (roster ! i)
          \<and> student_id (roster ! i) = k \<and> (\<forall>j < i. student_id (roster ! j) \<noteq> k)))
   \<and> (k \<notin> student_id ` set roster \<longrightarrow>
      selectedStudent roster (Some k) = (case roster of [] \<Rightarrow> None | first # _ \<Rightarrow> Some first))
   \<and> selectedStudent roster None = (case roster of [] \<Rightarrow> None | first # _ \<Rightarrow> Some first)
   \<and> (selectedStudent roster selectedId = None \<longleftrightarrow> roster = [])"
proof (intro conjI impI)
  assume "k \<in> student_id ` set roster"
  then obtain s where f: "List.find (\<lambda>s. Some (student_id s) = Some k) roster = Some s"
    by (cases "List.find (\<lambda>s. Some (student_id s) = Some k) roster") (auto simp: find_None_iff)
  then obtain i where i: "i < length roster" "s = roster ! i" "student_id (roster ! i) = k"
      "\<forall>j < i. student_id (roster ! j) \<noteq> k"
    by (auto simp: find_Some_iff)
  from f have "selectedStudent roster (Some k) = Some s"
    by (simp add: selectedStudent_def)
  with i show "\<exists>i < length roster. selectedStudent roster (Some k) = Some (roster ! i)
          \<and> student_id (roster ! i) = k \<and> (\<forall>j < i. student_id (roster ! j) \<noteq> k)"
    by blast
next
  assume "k \<notin> student_id ` set roster"
  then have "List.find (\<lambda>s. Some (student_id s) = Some k) roster = None"
    by (auto simp: find_None_iff)
  then show "selectedStudent roster (Some k) = (case roster of [] \<Rightarrow> None | first # _ \<Rightarrow> Some first)"
    by (simp add: selectedStudent_def)
next
  show "selectedStudent roster None = (case roster of [] \<Rightarrow> None | first # _ \<Rightarrow> Some first)"
    by (simp add: selectedStudent_def find_None_iff[THEN iffD2])
next
  show "selectedStudent roster selectedId = None \<longleftrightarrow> roster = []"
    by (auto simp: selectedStudent_def split: option.splits list.splits)
qed

theorem selectedStudent_match_or_first_witness:
  "''s2'' \<in> student_id ` set DEMO_STUDENTS
   \<and> selectedStudent DEMO_STUDENTS (Some ''s2'') =
         Some \<lparr>student_id = ''s2'', student_name = ''Ben Carter'', commendations = 5\<rparr>
   \<and> ''s9'' \<notin> student_id ` set DEMO_STUDENTS
   \<and> selectedStudent DEMO_STUDENTS (Some ''s9'') =
         Some \<lparr>student_id = ''s1'', student_name = ''Alice Johnson'', commendations = 3\<rparr>
   \<and> selectedStudent DEMO_STUDENTS None =
         Some \<lparr>student_id = ''s1'', student_name = ''Alice Johnson'', commendations = 3\<rparr>
   \<and> selectedStudent [] (Some ''s2'') = None"
  using selectedStudent_match_or_first [of "''s2''" DEMO_STUDENTS "Some ''s2''"]
    selectedStudent_match_or_first [of "''s9''" DEMO_STUDENTS None]
    selectedStudent_match_or_first [of "''s2''" "[]" "Some ''s2''"]
  by (simp add: DEMO_STUDENTS_def selectedStudent_def)

section \<open>Issuing a voucher\<close>

text \<open>
  C1. For every state, the issue button is enabled exactly when a selected student exists
  and has at least 5 commendations. When it is, \<^verbatim>\<open>handleIssueVoucher\<close> puts one new voucher
  in front of the ledger and makes it the active voucher. When it is not (for example at 4
  commendations), the handler returns at once and the whole state, so every student's
  commendations and the ledger, is exactly what it was. Hence the ledger changes if and only
  if the check passes.
\<close>

theorem handleIssueVoucher_gate:
  "(canIssue st \<longleftrightarrow>
      (\<exists>sel. selectedStudent (students st) (selectedStudentId st) = Some sel \<and> 5 \<le> commendations sel))
   \<and> (canIssue st \<longrightarrow>
        length (vouchers (handleIssueVoucher g n st)) = Suc (length (vouchers st))
        \<and> (\<exists>v. activeVoucher (handleIssueVoucher g n st) = Some v
               \<and> vouchers (handleIssueVoucher g n st) = v # vouchers st))
   \<and> (\<not> canIssue st \<longrightarrow> handleIssueVoucher g n st = st)"
  apply (intro conjI impI)
  subgoal by (auto simp: canIssue_def TARGET_COMMENDATIONS_def split: option.splits)
  subgoal using canIssue_selected[of st] by (auto simp: handleIssueVoucher_def issueVoucherAt_vouchers)
  subgoal using canIssue_selected[of st] by (auto simp: handleIssueVoucher_def issueVoucherAt_vouchers issueVoucherAt_active)
  subgoal by (simp add: handleIssueVoucher_def issueVoucherAt_refused)
  done

theorem handleIssueVoucher_gate_witness:
  "\<not> canIssue (setSelectedStudentId (Some ''s4'') firstRun)
   \<and> selectedStudent (students firstRun) (Some ''s4'') =
         Some \<lparr>student_id = ''s4'', student_name = ''Daniel O'Neill'', commendations = 4\<rparr>
   \<and> handleIssueVoucher ''v1'' ''t1'' (setSelectedStudentId (Some ''s4'') firstRun) =
         setSelectedStudentId (Some ''s4'') firstRun
   \<and> canIssue (setSelectedStudentId (Some ''s2'') firstRun)
   \<and> length (vouchers (handleIssueVoucher ''v1'' ''t1''
         (setSelectedStudentId (Some ''s2'') firstRun))) = 1"
  using handleIssueVoucher_gate [of "setSelectedStudentId (Some ''s4'') firstRun" "''v1''" "''t1''"]
    handleIssueVoucher_gate [of "setSelectedStudentId (Some ''s2'') firstRun" "''v1''" "''t1''"]
  by (simp add: model_defs)

lemma selectedStudent_map:
  assumes "\<And>s. student_id (f s) = student_id s"
  shows "selectedStudent (map f roster) k = map_option f (selectedStudent roster k)"
proof -
  have "List.find (\<lambda>s. Some (student_id s) = k) (map f roster)
        = map_option f (List.find (\<lambda>s. Some (student_id s) = k) roster)"
    by (induction roster) (simp_all add: assms)
  then show ?thesis
    by (cases roster) (auto simp: selectedStudent_def split: option.splits)
qed

text \<open>
  C2. For every state in which the issue button is enabled, after \<^verbatim>\<open>handleIssueVoucher\<close>
  the selected student is the same student with \<open>max 0 (commendations - 5)\<close> commendations,
  which is \<open>commendations - 5\<close> there (7 gives 2, not 0), and the ledger is longer by exactly
  one voucher.
\<close>

theorem handleIssueVoucher_debit:
  assumes "canIssue st"
    and "selectedStudent (students st) (selectedStudentId st) = Some sel"
  shows "selectedStudent (students (handleIssueVoucher g n st))
           (selectedStudentId (handleIssueVoucher g n st))
         = Some (sel\<lparr>commendations := max 0 (commendations sel - 5)\<rparr>)
       \<and> max 0 (commendations sel - 5) = commendations sel - 5
       \<and> length (vouchers (handleIssueVoucher g n st)) = length (vouchers st) + 1"
proof -
  let ?debit = "\<lambda>student. if student_id student = student_id sel
            then student\<lparr>commendations := max 0 (commendations student - TARGET_COMMENDATIONS)\<rparr>
            else student"
  have ids: "\<And>s. student_id (?debit s) = student_id s" by simp
  have "selectedStudent (students (handleIssueVoucher g n st))
           (selectedStudentId (handleIssueVoucher g n st))
        = map_option ?debit (selectedStudent (students st) (selectedStudentId st))"
    unfolding handleIssueVoucher_def issueVoucherAt_students[OF assms] issueVoucherAt_selected
    by (rule selectedStudent_map[of ?debit, OF ids])
  then have a: "selectedStudent (students (handleIssueVoucher g n st))
           (selectedStudentId (handleIssueVoucher g n st))
         = Some (sel\<lparr>commendations := max 0 (commendations sel - 5)\<rparr>)"
    by (simp add: assms TARGET_COMMENDATIONS_def)
  have b: "max 0 (commendations sel - 5) = commendations sel - 5"
    using assms by (simp add: canIssue_def TARGET_COMMENDATIONS_def)
  have c: "length (vouchers (handleIssueVoucher g n st)) = length (vouchers st) + 1"
    by (simp add: handleIssueVoucher_def issueVoucherAt_vouchers[OF assms])
  from a b c show ?thesis by blast
qed

theorem handleIssueVoucher_debit_witness:
  "canIssue (run [Adjust ''s2'' 2, Select ''s2''] firstRun)
   \<and> selectedStudent (students (run [Adjust ''s2'' 2, Select ''s2''] firstRun))
         (selectedStudentId (run [Adjust ''s2'' 2, Select ''s2''] firstRun)) =
       Some \<lparr>student_id = ''s2'', student_name = ''Ben Carter'', commendations = 7\<rparr>
   \<and> selectedStudent
         (students (handleIssueVoucher ''v1'' ''t1'' (run [Adjust ''s2'' 2, Select ''s2''] firstRun)))
         (selectedStudentId
           (handleIssueVoucher ''v1'' ''t1'' (run [Adjust ''s2'' 2, Select ''s2''] firstRun))) =
       Some \<lparr>student_id = ''s2'', student_name = ''Ben Carter'', commendations = 2\<rparr>
   \<and> length (vouchers
         (handleIssueVoucher ''v1'' ''t1'' (run [Adjust ''s2'' 2, Select ''s2''] firstRun))) = 1"
proof -
  have a: "canIssue (run [Adjust ''s2'' 2, Select ''s2''] firstRun)"
    by (simp add: model_defs)
  have b: "selectedStudent (students (run [Adjust ''s2'' 2, Select ''s2''] firstRun))
         (selectedStudentId (run [Adjust ''s2'' 2, Select ''s2''] firstRun)) =
       Some \<lparr>student_id = ''s2'', student_name = ''Ben Carter'', commendations = 7\<rparr>"
    by (simp add: model_defs)
  have c: "vouchers (run [Adjust ''s2'' 2, Select ''s2''] firstRun) = []"
    by (simp add: model_defs)
  show ?thesis
    using handleIssueVoucher_debit [OF a b, of "''v1''" "''t1''"] a b c by simp
qed

section \<open>Commendations never go below zero\<close>

lemma nonNegative_adjust:
  "nonNegative roster \<Longrightarrow>
   nonNegative (map (\<lambda>student. if P student
        then student\<lparr>commendations := max 0 (f student)\<rparr> else student) roster)"
  by (induction roster) (simp_all add: nonNegative_def)

lemma nonNegative_stepAt:
  "nonNegative (students st) \<Longrightarrow> nonNegative (students (stepAt amount a st))"
proof (cases a)
  case (Issue g n)
  assume nn: "nonNegative (students st)"
  show ?thesis
  proof (cases "canIssue st")
    case True
    then obtain sel where "selectedStudent (students st) (selectedStudentId st) = Some sel"
      using canIssue_selected by blast
    with True nn show ?thesis
      by (simp add: Issue issueVoucherAt_students nonNegative_adjust)
  next
    case False
    with nn show ?thesis by (simp add: Issue issueVoucherAt_refused)
  qed
qed (simp_all add: handleAdjustCommendations_def handleToggleRedeemed_def
      handleReopenVoucher_def nonNegative_adjust)

lemma nonNegative_run:
  "nonNegative (students st) \<Longrightarrow> nonNegative (students (run as st))"
  by (induction as arbitrary: st) (simp_all add: step_def nonNegative_stepAt)

text \<open>
  C3. From every roster without a negative count, after every prefix of every finite
  sequence of actions (adjustments by any integer for any student id, issuances, and the
  other actions, in any order) every student's commendations are at least 0.
\<close>

theorem commendations_never_negative:
  "nonNegative (students st) \<Longrightarrow>
   \<forall>n. \<forall>s \<in> set (students (run (take n as) st)). 0 \<le> commendations s"
  using nonNegative_run[of st] by (simp add: nonNegative_def list_all_iff)

theorem commendations_never_negative_witness:
  "nonNegative (students firstRun)
   \<and> map commendations (students (run (take 3
         [Adjust ''s1'' (- 10), Select ''s2'', Issue ''v1'' ''t1'', Adjust ''s3'' 4]) firstRun)) =
       [0, 0, 1, 4]"
  using commendations_never_negative [of firstRun
      "[Adjust ''s1'' (- 10), Select ''s2'', Issue ''v1'' ''t1'', Adjust ''s3'' 4]"]
  by (simp add: model_defs nonNegative_def)

section \<open>Adjusting commendations\<close>

text \<open>
  C10. For every state, \<^verbatim>\<open>handleAdjustCommendations\<close> with an id no student has returns the
  state as it was. With any id, the roster keeps its length, the ids and the names of its
  students in their order; a student with another id is unchanged, a student with the id
  has \<open>max 0 (commendations + delta)\<close> commendations and is otherwise unchanged; and no
  other cell of the state changes.
\<close>

theorem handleAdjustCommendations_frame:
  "(k \<notin> student_id ` set (students st) \<longrightarrow> handleAdjustCommendations k delta st = st)
   \<and> length (students (handleAdjustCommendations k delta st)) = length (students st)
   \<and> map student_id (students (handleAdjustCommendations k delta st)) = map student_id (students st)
   \<and> map student_name (students (handleAdjustCommendations k delta st)) = map student_name (students st)
   \<and> (\<forall>i < length (students st).
        students (handleAdjustCommendations k delta st) ! i =
          (if student_id (students st ! i) = k
           then (students st ! i)\<lparr>commendations := max 0 (commendations (students st ! i) + delta)\<rparr>
           else students st ! i))
   \<and> vouchers (handleAdjustCommendations k delta st) = vouchers st
   \<and> selectedStudentId (handleAdjustCommendations k delta st) = selectedStudentId st
   \<and> activeVoucher (handleAdjustCommendations k delta st) = activeVoucher st
   \<and> page (handleAdjustCommendations k delta st) = page st"
proof (intro conjI impI)
  assume "k \<notin> student_id ` set (students st)"
  then have "map (\<lambda>student. if student_id student = k
        then student\<lparr>commendations := max 0 (commendations student + delta)\<rparr>
        else student) (students st) = students st"
    by (intro map_idI) auto
  then show "handleAdjustCommendations k delta st = st"
    unfolding handleAdjustCommendations_def by (rule setStudents_same)
qed (simp_all add: handleAdjustCommendations_def comp_def if_distrib cong: if_cong)

theorem handleAdjustCommendations_frame_witness:
  "''s9'' \<notin> student_id ` set (students firstRun)
   \<and> handleAdjustCommendations ''s9'' 1 firstRun = firstRun
   \<and> students (handleAdjustCommendations ''s3'' (- 1) firstRun) =
       [\<lparr>student_id = ''s1'', student_name = ''Alice Johnson'', commendations = 3\<rparr>,
        \<lparr>student_id = ''s2'', student_name = ''Ben Carter'', commendations = 5\<rparr>,
        \<lparr>student_id = ''s3'', student_name = ''Chloe Singh'', commendations = 0\<rparr>,
        \<lparr>student_id = ''s4'', student_name = ''Daniel O'Neill'', commendations = 4\<rparr>]"
  using handleAdjustCommendations_frame [of "''s9''" firstRun 1]
    handleAdjustCommendations_frame [of "''s3''" firstRun "- 1"]
  by (simp add: model_defs)

section \<open>Toggling the redeemed flag\<close>

lemma toggle_twice:
  "map (\<lambda>v. if voucher_id v = k then v\<lparr>redeemed := \<not> redeemed v\<rparr> else v)
     (map (\<lambda>v. if voucher_id v = k then v\<lparr>redeemed := \<not> redeemed v\<rparr> else v) vs) = vs"
  by (induction vs) simp_all

text \<open>
  C6. For every state and voucher id, \<^verbatim>\<open>handleToggleRedeemed\<close> applied twice with the same
  id gives back the state, so every voucher's \<^verbatim>\<open>redeemed\<close> value; applied once it negates
  the flag of the vouchers with that id and of no other; and with an id no voucher has it
  returns the state, so the ledger, exactly as it was.
\<close>

theorem handleToggleRedeemed_involution:
  "handleToggleRedeemed k (handleToggleRedeemed k st) = st
   \<and> map redeemed (vouchers (handleToggleRedeemed k st)) =
       map (\<lambda>v. if voucher_id v = k then \<not> redeemed v else redeemed v) (vouchers st)
   \<and> (k \<notin> voucher_id ` set (vouchers st) \<longrightarrow> handleToggleRedeemed k st = st)"
proof (intro conjI impI)
  show "handleToggleRedeemed k (handleToggleRedeemed k st) = st"
    unfolding handleToggleRedeemed_def
    by (simp add: setVouchers_def toggle_twice del: map_map)
next
  show "map redeemed (vouchers (handleToggleRedeemed k st)) =
       map (\<lambda>v. if voucher_id v = k then \<not> redeemed v else redeemed v) (vouchers st)"
    by (simp add: handleToggleRedeemed_def comp_def if_distrib cong: if_cong)
next
  assume "k \<notin> voucher_id ` set (vouchers st)"
  then have "map (\<lambda>v. if voucher_id v = k then v\<lparr>redeemed := \<not> redeemed v\<rparr> else v) (vouchers st)
      = vouchers st"
    by (intro map_idI) auto
  then show "handleToggleRedeemed k st = st"
    unfolding handleToggleRedeemed_def by (rule setVouchers_same)
qed

theorem handleToggleRedeemed_involution_witness:
  "vouchers (run [Select ''s2'', Issue ''v1'' ''t1''] firstRun) =
       [\<lparr>voucher_id = ''v1'', studentId = ''s2'', studentName = ''Ben Carter'',
         issuedAt = ''t1'', amountPence = 290, redeemed = False\<rparr>]
   \<and> map redeemed (vouchers (handleToggleRedeemed ''v1''
         (run [Select ''s2'', Issue ''v1'' ''t1''] firstRun))) = [True]
   \<and> handleToggleRedeemed ''v1'' (handleToggleRedeemed ''v1''
         (run [Select ''s2'', Issue ''v1'' ''t1''] firstRun)) =
       run [Select ''s2'', Issue ''v1'' ''t1''] firstRun
   \<and> ''v7'' \<notin> voucher_id ` set (vouchers (run [Select ''s2'', Issue ''v1'' ''t1''] firstRun))
   \<and> handleToggleRedeemed ''v7'' (run [Select ''s2'', Issue ''v1'' ''t1''] firstRun) =
       run [Select ''s2'', Issue ''v1'' ''t1''] firstRun"
  using handleToggleRedeemed_involution
      [of "''v1''" "run [Select ''s2'', Issue ''v1'' ''t1''] firstRun"]
    handleToggleRedeemed_involution
      [of "''v7''" "run [Select ''s2'', Issue ''v1'' ''t1''] firstRun"]
  by (simp add: model_defs)

section \<open>The ledger is most recent first\<close>

lemma vouchers_step_issued:
  "(\<forall>k. a \<noteq> Toggle k) \<Longrightarrow> vouchers (step a st) = rev (issued a st) @ vouchers st"
proof (cases a)
  case (Issue g n)
  show ?thesis
  proof (cases "canIssue st")
    case True
    then obtain sel where "selectedStudent (students st) (selectedStudentId st) = Some sel"
      using canIssue_selected by blast
    with True show ?thesis
      by (simp add: Issue step_def issued_def issueVoucherAt_vouchers)
  next
    case False
    then show ?thesis
      by (simp add: Issue step_def issued_def issueVoucherAt_refused split: option.splits)
  qed
qed (simp_all add: step_def issued_def handleAdjustCommendations_def handleReopenVoucher_def)

lemma immutableFields_step:
  "map immutableFields (vouchers (step a st))
   = rev (map immutableFields (issued a st)) @ map immutableFields (vouchers st)"
proof (cases "\<exists>k. a = Toggle k")
  case True
  then show ?thesis
    by (auto simp: step_def issued_def handleToggleRedeemed_def immutableFields_def)
next
  case False
  then show ?thesis
    by (simp add: vouchers_step_issued rev_map)
qed

text \<open>
  C5. An issuance with the button enabled puts the new voucher, with the generated id and
  the time stamp, in front of the ledger. After every sequence of actions the ledger
  (which the log page lists in its stored order) is, in all fields but \<^verbatim>\<open>redeemed\<close>, the
  vouchers the sequence issued, most recent first, followed by the ledger it started from;
  without a toggle in the sequence the ledger is exactly that. So no action reorders it.
\<close>

theorem ledger_most_recent_first:
  "(canIssue st \<longrightarrow>
      (\<exists>v. vouchers (handleIssueVoucher g n st) = v # vouchers st
           \<and> voucher_id v = g \<and> issuedAt v = n \<and> issued (Issue g n) st = [v]))
   \<and> map immutableFields (vouchers (run as st))
       = rev (map immutableFields (issuedBy as st)) @ map immutableFields (vouchers st)
   \<and> ((\<forall>k. Toggle k \<notin> set as) \<longrightarrow> vouchers (run as st) = rev (issuedBy as st) @ vouchers st)"
proof (intro conjI impI)
  assume c: "canIssue st"
  then obtain sel where s: "selectedStudent (students st) (selectedStudentId st) = Some sel"
    using canIssue_selected by blast
  show "\<exists>v. vouchers (handleIssueVoucher g n st) = v # vouchers st
           \<and> voucher_id v = g \<and> issuedAt v = n \<and> issued (Issue g n) st = [v]"
    using c s by (simp add: handleIssueVoucher_def issueVoucherAt_vouchers issued_def newVoucher_def)
next
  show "map immutableFields (vouchers (run as st))
       = rev (map immutableFields (issuedBy as st)) @ map immutableFields (vouchers st)"
    by (induction as arbitrary: st) (simp_all add: immutableFields_step)
next
  assume "\<forall>k. Toggle k \<notin> set as"
  then show "vouchers (run as st) = rev (issuedBy as st) @ vouchers st"
  proof (induction as arbitrary: st)
    case Nil
    show ?case by simp
  next
    case (Cons a as)
    from Cons.prems have "\<forall>k. a \<noteq> Toggle k" and "\<forall>k. Toggle k \<notin> set as" by auto
    then show ?case
      by (simp add: Cons.IH vouchers_step_issued)
  qed
qed

theorem ledger_most_recent_first_witness:
  "canIssue (setSelectedStudentId (Some ''s2'') firstRun)
   \<and> vouchers (handleIssueVoucher ''v1'' ''t1'' (setSelectedStudentId (Some ''s2'') firstRun)) =
       [\<lparr>voucher_id = ''v1'', studentId = ''s2'', studentName = ''Ben Carter'',
         issuedAt = ''t1'', amountPence = 290, redeemed = False\<rparr>]
   \<and> (\<forall>k. Toggle k \<notin> set [Select ''s2'', Issue ''v1'' ''t1'', Adjust ''s4'' 1, Select ''s4'',
         Issue ''v2'' ''t2''])
   \<and> map voucher_id (issuedBy [Select ''s2'', Issue ''v1'' ''t1'', Adjust ''s4'' 1, Select ''s4'',
         Issue ''v2'' ''t2''] firstRun) = [''v1'', ''v2'']
   \<and> map voucher_id (vouchers (run [Select ''s2'', Issue ''v1'' ''t1'', Adjust ''s4'' 1,
         Select ''s4'', Issue ''v2'' ''t2''] firstRun)) = [''v2'', ''v1'']"
  using ledger_most_recent_first [of "setSelectedStudentId (Some ''s2'') firstRun" "''v1''" "''t1''"
      "[Select ''s2'', Issue ''v1'' ''t1'', Adjust ''s4'' 1, Select ''s4'', Issue ''v2'' ''t2'']"]
    ledger_most_recent_first [of firstRun "''v1''" "''t1''"
      "[Select ''s2'', Issue ''v1'' ''t1'', Adjust ''s4'' 1, Select ''s4'', Issue ''v2'' ''t2'']"]
  by (simp add: model_defs)

section \<open>Vouchers are permanent and their fields frozen\<close>

lemma laterForm_refl: "laterForm T v v"
  by (simp add: laterForm_def)

lemma laterForm_trans:
  "laterForm T2 v'' v' \<Longrightarrow> laterForm T1 v' v \<Longrightarrow> laterForm (T1 \<union> T2) v'' v"
  by (auto simp: laterForm_def immutableFields_def)

lemma laterForm_toggle:
  "list_all2 (laterForm {k})
     (map (\<lambda>v. if voucher_id v = k then v\<lparr>redeemed := \<not> redeemed v\<rparr> else v) vs) vs"
  by (induction vs) (simp_all add: laterForm_def immutableFields_def)

lemma ledger_same:
  "vouchers st' = vouchers st \<Longrightarrow>
   \<exists>new kept. vouchers st' = new @ kept \<and> list_all2 (laterForm T) kept (vouchers st)"
  by (intro exI[of _ "[]"] exI[of _ "vouchers st"]) (simp add: list_all2_refl laterForm_refl)

lemma ledger_applyChange:
  "\<exists>new kept. vouchers (applyChange c st) = new @ kept
     \<and> list_all2 (laterForm {k. \<exists>amount. c = ByUser amount (Toggle k)}) kept (vouchers st)"
proof (cases c)
  case (RosterEdit f)
  show ?thesis by (rule ledger_same) (simp add: RosterEdit)
next
  case (ByUser amount a)
  show ?thesis
  proof (cases a)
    case (Toggle k)
    have T: "{k'. \<exists>amount. c = ByUser amount (Toggle k')} = {k}"
      by (auto simp: ByUser Toggle)
    have v: "vouchers (applyChange c st) =
       map (\<lambda>v. if voucher_id v = k then v\<lparr>redeemed := \<not> redeemed v\<rparr> else v) (vouchers st)"
      by (simp add: ByUser Toggle handleToggleRedeemed_def)
    show ?thesis
      unfolding T v
      by (intro exI[of _ "[]"] exI[of _ "map (\<lambda>v. if voucher_id v = k
            then v\<lparr>redeemed := \<not> redeemed v\<rparr> else v) (vouchers st)"])
        (simp add: laterForm_toggle)
  next
    case (Issue g n)
    show ?thesis
    proof (cases "canIssue st")
      case True
      then obtain sel where "selectedStudent (students st) (selectedStudentId st) = Some sel"
        using canIssue_selected by blast
      with True have v: "vouchers (applyChange c st) = newVoucher amount g n sel # vouchers st"
        by (simp add: ByUser Issue issueVoucherAt_vouchers)
      show ?thesis
        unfolding v
        by (intro exI[of _ "[newVoucher amount g n sel]"] exI[of _ "vouchers st"])
          (simp add: list_all2_refl laterForm_refl)
    next
      case False
      show ?thesis
        by (rule ledger_same) (simp add: ByUser Issue issueVoucherAt_refused False)
    qed
  next
    case (Adjust k d)
    show ?thesis
      by (rule ledger_same) (simp add: ByUser Adjust handleAdjustCommendations_def)
  next
    case (Reopen v)
    show ?thesis
      by (rule ledger_same) (simp add: ByUser Reopen handleReopenVoucher_def)
  next
    case (Select k)
    show ?thesis by (rule ledger_same) (simp add: ByUser Select)
  next
    case (Show p)
    show ?thesis by (rule ledger_same) (simp add: ByUser Show)
  next
    case ClosePreview
    show ?thesis by (rule ledger_same) (simp add: ByUser ClosePreview)
  qed
qed

lemma ledger_applyChanges:
  "\<exists>new kept. vouchers (applyChanges cs st) = new @ kept
     \<and> list_all2 (laterForm {k. \<exists>amount. ByUser amount (Toggle k) \<in> set cs}) kept (vouchers st)"
proof (induction cs arbitrary: st)
  case Nil
  have "vouchers (applyChanges [] st) = [] @ vouchers st" by simp
  moreover have "list_all2 (laterForm {k. \<exists>amount. ByUser amount (Toggle k) \<in> set []})
      (vouchers st) (vouchers st)"
    by (simp add: list_all2_refl laterForm_refl)
  ultimately show ?case by blast
next
  case (Cons c cs)
  let ?T1 = "{k. \<exists>amount. c = ByUser amount (Toggle k)}"
  let ?T2 = "{k. \<exists>amount. ByUser amount (Toggle k) \<in> set cs}"
  let ?T = "{k. \<exists>amount. ByUser amount (Toggle k) \<in> set (c # cs)}"
  have T: "?T = ?T1 \<union> ?T2" by auto
  obtain new1 kept1 where 1: "vouchers (applyChange c st) = new1 @ kept1"
      "list_all2 (laterForm ?T1) kept1 (vouchers st)"
    using ledger_applyChange by blast
  obtain new2 kept2 where 2: "vouchers (applyChanges cs (applyChange c st)) = new2 @ kept2"
      "list_all2 (laterForm ?T2) kept2 (vouchers (applyChange c st))"
    using Cons.IH by blast
  from 2(2) 1(1) obtain us vs where 3: "kept2 = us @ vs" "list_all2 (laterForm ?T2) vs kept1"
    by (auto simp: list_all2_append2)
  have "list_all2 (laterForm (?T1 \<union> ?T2)) vs (vouchers st)"
  proof (rule list_all2_trans[OF _ 3(2) 1(2)])
    fix a b c
    assume "laterForm ?T2 a b" and "laterForm ?T1 b c"
    then show "laterForm (?T1 \<union> ?T2) a c" by (rule laterForm_trans)
  qed
  moreover have "vouchers (applyChanges (c # cs) st) = (new2 @ us) @ vs"
    by (simp add: 2(1) 3(1))
  ultimately show ?case unfolding T by blast
qed

lemma run_applyChanges: "run as st = applyChanges (map (ByUser VOUCHER_AMOUNT_PENCE) as) st"
  by (induction as arbitrary: st) (simp_all add: step_def)

text \<open>
  C9. After every sequence of actions the ledger is some new vouchers followed by as many
  vouchers as it held before, in the same order: none is removed. Each of these has the
  \<^verbatim>\<open>id\<close>, \<^verbatim>\<open>studentId\<close>, \<^verbatim>\<open>studentName\<close>, \<^verbatim>\<open>issuedAt\<close> and \<^verbatim>\<open>amountPence\<close> it had, and its
  \<^verbatim>\<open>redeemed\<close> flag differs only if the sequence contains a toggle of that voucher's id.
\<close>

theorem vouchers_permanent:
  "\<exists>new kept. vouchers (run as st) = new @ kept
     \<and> length kept = length (vouchers st)
     \<and> (\<forall>i < length (vouchers st).
          voucher_id (kept ! i) = voucher_id (vouchers st ! i)
          \<and> studentId (kept ! i) = studentId (vouchers st ! i)
          \<and> studentName (kept ! i) = studentName (vouchers st ! i)
          \<and> issuedAt (kept ! i) = issuedAt (vouchers st ! i)
          \<and> amountPence (kept ! i) = amountPence (vouchers st ! i)
          \<and> (redeemed (kept ! i) \<noteq> redeemed (vouchers st ! i)
               \<longrightarrow> Toggle (voucher_id (vouchers st ! i)) \<in> set as))"
proof -
  obtain new kept where k: "vouchers (run as st) = new @ kept"
    "list_all2 (laterForm {k. \<exists>amount. ByUser amount (Toggle k)
        \<in> set (map (ByUser VOUCHER_AMOUNT_PENCE) as)}) kept (vouchers st)"
    unfolding run_applyChanges using ledger_applyChanges by blast
  have "length kept = length (vouchers st)"
    using k(2) by (rule list_all2_lengthD)
  moreover have "\<forall>i < length (vouchers st).
          voucher_id (kept ! i) = voucher_id (vouchers st ! i)
          \<and> studentId (kept ! i) = studentId (vouchers st ! i)
          \<and> studentName (kept ! i) = studentName (vouchers st ! i)
          \<and> issuedAt (kept ! i) = issuedAt (vouchers st ! i)
          \<and> amountPence (kept ! i) = amountPence (vouchers st ! i)
          \<and> (redeemed (kept ! i) \<noteq> redeemed (vouchers st ! i)
               \<longrightarrow> Toggle (voucher_id (vouchers st ! i)) \<in> set as)"
    using k(2) by (auto simp: list_all2_conv_all_nth laterForm_def immutableFields_def)
  ultimately show ?thesis using k(1) by blast
qed

theorem vouchers_permanent_witness:
  "vouchers (run [Select ''s2'', Issue ''v1'' ''t1''] firstRun) =
       [\<lparr>voucher_id = ''v1'', studentId = ''s2'', studentName = ''Ben Carter'',
         issuedAt = ''t1'', amountPence = 290, redeemed = False\<rparr>]
   \<and> vouchers (run [Adjust ''s2'' 5, Issue ''v2'' ''t2'', Toggle ''v1'']
         (run [Select ''s2'', Issue ''v1'' ''t1''] firstRun)) =
       [\<lparr>voucher_id = ''v2'', studentId = ''s2'', studentName = ''Ben Carter'',
         issuedAt = ''t2'', amountPence = 290, redeemed = False\<rparr>,
        \<lparr>voucher_id = ''v1'', studentId = ''s2'', studentName = ''Ben Carter'',
         issuedAt = ''t1'', amountPence = 290, redeemed = True\<rparr>]
   \<and> Toggle ''v1'' \<in> set [Adjust ''s2'' 5, Issue ''v2'' ''t2'', Toggle ''v1'']"
  using vouchers_permanent [of "[Adjust ''s2'' 5, Issue ''v2'' ''t2'', Toggle ''v1'']"
      "run [Select ''s2'', Issue ''v1'' ''t1''] firstRun"]
  by (simp add: model_defs)

text \<open>
  C4. Whatever happens after a voucher is in the ledger (actions of the user on a build
  with any configured amount, and edits of the roster such as renaming the student), the
  \<^verbatim>\<open>studentName\<close> and \<^verbatim>\<open>amountPence\<close> of the vouchers already there stay as they are, in
  the same order behind the newer ones. In particular a voucher issued for a student keeps
  the name the student had and the amount configured at the issuance.
\<close>

theorem voucher_snapshot_frozen:
  "(\<exists>new. map snapshot (vouchers (applyChanges cs st)) = new @ map snapshot (vouchers st))
   \<and> (canIssue st \<longrightarrow> selectedStudent (students st) (selectedStudentId st) = Some sel \<longrightarrow>
        (\<exists>new. map snapshot (vouchers (applyChanges cs (issueVoucherAt amount g n st)))
               = new @ (student_name sel, amount) # map snapshot (vouchers st)))"
proof -
  have gen: "\<exists>new. map snapshot (vouchers (applyChanges cs s)) = new @ map snapshot (vouchers s)" for s
  proof -
    obtain new kept where k: "vouchers (applyChanges cs s) = new @ kept"
      "list_all2 (laterForm {k. \<exists>amount. ByUser amount (Toggle k) \<in> set cs}) kept (vouchers s)"
      using ledger_applyChanges by blast
    from k(2) have "map snapshot kept = map snapshot (vouchers s)"
      by (auto simp: list_eq_iff_nth_eq list_all2_conv_all_nth laterForm_def
          immutableFields_def snapshot_def)
    with k(1) show ?thesis by auto
  qed
  show ?thesis
  proof (intro conjI impI)
    show "\<exists>new. map snapshot (vouchers (applyChanges cs st)) = new @ map snapshot (vouchers st)"
      by (rule gen)
  next
    assume "canIssue st" and "selectedStudent (students st) (selectedStudentId st) = Some sel"
    then have "vouchers (issueVoucherAt amount g n st) = newVoucher amount g n sel # vouchers st"
      by (rule issueVoucherAt_vouchers)
    then show "\<exists>new. map snapshot (vouchers (applyChanges cs (issueVoucherAt amount g n st)))
               = new @ (student_name sel, amount) # map snapshot (vouchers st)"
      using gen[of "issueVoucherAt amount g n st"] by (simp add: snapshot_def newVoucher_def)
  qed
qed

theorem voucher_snapshot_frozen_witness:
  "canIssue (setSelectedStudentId (Some ''s2'') firstRun)
   \<and> selectedStudent (students (setSelectedStudentId (Some ''s2'') firstRun))
         (selectedStudentId (setSelectedStudentId (Some ''s2'') firstRun)) =
       Some \<lparr>student_id = ''s2'', student_name = ''Ben Carter'', commendations = 5\<rparr>
   \<and> map student_name (students (applyChanges
         [RosterEdit (rename ''s2'' ''Benjamin C''), ByUser 350 (Adjust ''s2'' 5),
          ByUser 350 (Issue ''v2'' ''t2'')]
         (issueVoucherAt 290 ''v1'' ''t1'' (setSelectedStudentId (Some ''s2'') firstRun)))) =
       [''Alice Johnson'', ''Benjamin C'', ''Chloe Singh'', ''Daniel O'Neill'']
   \<and> map snapshot (vouchers (applyChanges
         [RosterEdit (rename ''s2'' ''Benjamin C''), ByUser 350 (Adjust ''s2'' 5),
          ByUser 350 (Issue ''v2'' ''t2'')]
         (issueVoucherAt 290 ''v1'' ''t1'' (setSelectedStudentId (Some ''s2'') firstRun)))) =
       [(''Benjamin C'', 350), (''Ben Carter'', 290)]"
  using voucher_snapshot_frozen [of
      "[RosterEdit (rename ''s2'' ''Benjamin C''), ByUser 350 (Adjust ''s2'' 5),
        ByUser 350 (Issue ''v2'' ''t2'')]"
      "setSelectedStudentId (Some ''s2'') firstRun"
      "\<lparr>student_id = ''s2'', student_name = ''Ben Carter'', commendations = 5\<rparr>"
      290 "''v1''" "''t1''"]
  by (simp add: model_defs)

section \<open>Loading the persisted records\<close>

lemma asStudent_studentJson: "asStudent (studentJson s) = Some s"
  by (simp add: asStudent_def studentJson_def)

lemma asVoucher_voucherJson: "asVoucher (voucherJson v) = Some v"
  by (simp add: asVoucher_def voucherJson_def)

lemma asRoster_rosterJson: "asRoster (rosterJson roster) = Some roster"
proof -
  have "those (map asStudent (map studentJson roster)) = Some roster"
    by (induction roster) (simp_all add: asStudent_studentJson)
  then show ?thesis by (simp add: rosterJson_def)
qed

lemma asLedger_ledgerJson: "asLedger (ledgerJson ledger) = Some ledger"
proof -
  have "those (map asVoucher (map voucherJson ledger)) = Some ledger"
    by (induction ledger) (simp_all add: asVoucher_voucherJson)
  then show ?thesis by (simp add: ledgerJson_def)
qed

lemma load_default:
  "\<not> hasWindow \<or> getItem key = Throws \<or> getItem key = Returns None
      \<or> (\<exists>stored. getItem key = Returns (Some stored) \<and> JSON_parse stored = Throws) \<Longrightarrow>
   useLocalStorageState hasWindow getItem JSON_parse key defaultValue = defaultValue"
  by (auto simp: useLocalStorageState_def)

lemma App_seed_roster:
  assumes "useLocalStorageState hasWindow getItem JSON_parse ''cafe-voucher-students''
      (rosterJson DEMO_STUDENTS) = rosterJson DEMO_STUDENTS"
  shows "App hasWindow getItem JSON_parse =
       (case asLedger (useLocalStorageState hasWindow getItem JSON_parse
                ''cafe-voucher-log'' (ledgerJson [])) of
          Some ledger \<Rightarrow> Rendered (initialState DEMO_STUDENTS ledger)
        | None \<Rightarrow> Untyped)"
  unfolding App_def assms Let_def asRoster_rosterJson
  by (simp add: rosterJson_def split: option.splits)

lemmas load_defs =
  useLocalStorageState_def App_def initialState_def firstRun_def DEMO_STUDENTS_def
  studentJson_def voucherJson_def rosterJson_def ledgerJson_def asStudent_def asVoucher_def
  storedVoucher_def ledgerText_def parseStored_def storageNullRoster_def
  storageBrokenRoster_def storageLedgerOnly_def storageEmpty_def Let_def

text \<open>
  C8, as the code has it. For every key and default: when there is no \<^verbatim>\<open>window\<close>, when
  reading the storage throws, when the key is absent, or when the stored text is not JSON
  (\<^verbatim>\<open>JSON.parse\<close> throws), the loaded value is the default; a stored text that parses is
  loaded as the value it parses to, with no check of its shape. The two records have
  distinct keys and the value loaded for a key depends on the storage only through the
  entry of that key. So when the roster key is absent, unreadable or not JSON, the first
  render has the seed roster and the ledger that the ledger key holds; and when both keys
  are, it is the state of a first run.
\<close>

theorem load_defaults:
  "((\<not> hasWindow \<or> getItem key = Throws \<or> getItem key = Returns None
      \<or> (\<exists>text. getItem key = Returns (Some text) \<and> JSON_parse text = Throws))
     \<longrightarrow> useLocalStorageState hasWindow getItem JSON_parse key defaultValue = defaultValue)
   \<and> (hasWindow \<and> getItem key = Returns (Some stored) \<and> JSON_parse stored = Returns parsed
     \<longrightarrow> useLocalStorageState hasWindow getItem JSON_parse key defaultValue = parsed)
   \<and> ''cafe-voucher-students'' \<noteq> ''cafe-voucher-log''
   \<and> (getItem key = getItem' key
     \<longrightarrow> useLocalStorageState hasWindow getItem JSON_parse key defaultValue
         = useLocalStorageState hasWindow getItem' JSON_parse key defaultValue)
   \<and> ((\<not> hasWindow \<or> getItem ''cafe-voucher-students'' = Throws
       \<or> getItem ''cafe-voucher-students'' = Returns None
       \<or> (\<exists>text. getItem ''cafe-voucher-students'' = Returns (Some text)
             \<and> JSON_parse text = Throws))
     \<longrightarrow> App hasWindow getItem JSON_parse =
           (case asLedger (useLocalStorageState hasWindow getItem JSON_parse
                    ''cafe-voucher-log'' (ledgerJson [])) of
              Some ledger \<Rightarrow> Rendered (initialState DEMO_STUDENTS ledger)
            | None \<Rightarrow> Untyped))
   \<and> ((\<not> hasWindow \<or> getItem ''cafe-voucher-students'' = Throws
       \<or> getItem ''cafe-voucher-students'' = Returns None
       \<or> (\<exists>text. getItem ''cafe-voucher-students'' = Returns (Some text)
             \<and> JSON_parse text = Throws))
      \<and> (\<not> hasWindow \<or> getItem ''cafe-voucher-log'' = Throws
       \<or> getItem ''cafe-voucher-log'' = Returns None
       \<or> (\<exists>text. getItem ''cafe-voucher-log'' = Returns (Some text)
             \<and> JSON_parse text = Throws))
     \<longrightarrow> App hasWindow getItem JSON_parse = Rendered (initialState DEMO_STUDENTS []))"
proof (intro conjI impI)
  assume "\<not> hasWindow \<or> getItem key = Throws \<or> getItem key = Returns None
      \<or> (\<exists>text. getItem key = Returns (Some text) \<and> JSON_parse text = Throws)"
  then show "useLocalStorageState hasWindow getItem JSON_parse key defaultValue = defaultValue"
    by (rule load_default)
next
  assume "hasWindow \<and> getItem key = Returns (Some stored) \<and> JSON_parse stored = Returns parsed"
  then show "useLocalStorageState hasWindow getItem JSON_parse key defaultValue = parsed"
    by (simp add: useLocalStorageState_def)
next
  show "''cafe-voucher-students'' \<noteq> ''cafe-voucher-log''" by simp
next
  assume "getItem key = getItem' key"
  then show "useLocalStorageState hasWindow getItem JSON_parse key defaultValue
         = useLocalStorageState hasWindow getItem' JSON_parse key defaultValue"
    by (simp add: useLocalStorageState_def)
next
  assume "\<not> hasWindow \<or> getItem ''cafe-voucher-students'' = Throws
       \<or> getItem ''cafe-voucher-students'' = Returns None
       \<or> (\<exists>text. getItem ''cafe-voucher-students'' = Returns (Some text)
             \<and> JSON_parse text = Throws)"
  then have "useLocalStorageState hasWindow getItem JSON_parse ''cafe-voucher-students''
      (rosterJson DEMO_STUDENTS) = rosterJson DEMO_STUDENTS"
    by (rule load_default)
  then show "App hasWindow getItem JSON_parse =
           (case asLedger (useLocalStorageState hasWindow getItem JSON_parse
                    ''cafe-voucher-log'' (ledgerJson [])) of
              Some ledger \<Rightarrow> Rendered (initialState DEMO_STUDENTS ledger)
            | None \<Rightarrow> Untyped)"
    by (rule App_seed_roster)
next
  assume a: "(\<not> hasWindow \<or> getItem ''cafe-voucher-students'' = Throws
       \<or> getItem ''cafe-voucher-students'' = Returns None
       \<or> (\<exists>text. getItem ''cafe-voucher-students'' = Returns (Some text)
             \<and> JSON_parse text = Throws))
      \<and> (\<not> hasWindow \<or> getItem ''cafe-voucher-log'' = Throws
       \<or> getItem ''cafe-voucher-log'' = Returns None
       \<or> (\<exists>text. getItem ''cafe-voucher-log'' = Returns (Some text)
             \<and> JSON_parse text = Throws))"
  from a have r: "useLocalStorageState hasWindow getItem JSON_parse ''cafe-voucher-students''
      (rosterJson DEMO_STUDENTS) = rosterJson DEMO_STUDENTS"
    by (intro load_default) blast
  from a have l: "useLocalStorageState hasWindow getItem JSON_parse ''cafe-voucher-log''
      (ledgerJson []) = ledgerJson []"
    by (intro load_default) blast
  show "App hasWindow getItem JSON_parse = Rendered (initialState DEMO_STUDENTS [])"
    unfolding App_seed_roster[OF r] l asLedger_ledgerJson by simp
qed

theorem load_defaults_witness:
  "storageBrokenRoster ''cafe-voucher-students'' = Returns (Some ''{oops'')
   \<and> parseStored ''{oops'' = Throws
   \<and> useLocalStorageState True storageBrokenRoster parseStored ''cafe-voucher-students''
         (rosterJson DEMO_STUDENTS) = rosterJson DEMO_STUDENTS
   \<and> storageBrokenRoster ''cafe-voucher-log'' = storageLedgerOnly ''cafe-voucher-log''
   \<and> storageBrokenRoster ''cafe-voucher-log'' = Returns (Some ledgerText)
   \<and> parseStored ledgerText = Returns (ledgerJson [storedVoucher])
   \<and> useLocalStorageState True storageBrokenRoster parseStored ''cafe-voucher-log''
         (ledgerJson []) = ledgerJson [storedVoucher]
   \<and> useLocalStorageState True storageLedgerOnly parseStored ''cafe-voucher-log''
         (ledgerJson []) = ledgerJson [storedVoucher]
   \<and> App True storageBrokenRoster parseStored = Rendered (initialState DEMO_STUDENTS [storedVoucher])
   \<and> App True storageLedgerOnly parseStored = Rendered (initialState DEMO_STUDENTS [storedVoucher])
   \<and> storageEmpty ''cafe-voucher-students'' = Returns None
   \<and> storageEmpty ''cafe-voucher-log'' = Returns None
   \<and> App True storageEmpty parseStored = Rendered firstRun"
  using load_defaults [of True storageBrokenRoster "''cafe-voucher-students''" parseStored
      "rosterJson DEMO_STUDENTS" ledgerText "ledgerJson [storedVoucher]" storageBrokenRoster]
    load_defaults [of True storageBrokenRoster "''cafe-voucher-log''" parseStored
      "ledgerJson []" ledgerText "ledgerJson [storedVoucher]" storageLedgerOnly]
    load_defaults [of True storageEmpty "''cafe-voucher-log''" parseStored
      "ledgerJson []" ledgerText "ledgerJson [storedVoucher]" storageEmpty]
  by (simp add: load_defs)

text \<open>
  C8 as stated fails for a stored record that parses but is not a roster. With the text
  \<^verbatim>\<open>null\<close> under the roster key the loaded roster is \<^verbatim>\<open>null\<close>, not the seed roster, and the
  first render throws at \<^verbatim>\<open>students.find\<close>.
\<close>

theorem load_parsed_roster_counterexample:
  "storageNullRoster ''cafe-voucher-students'' = Returns (Some ''null'')
   \<and> parseStored ''null'' = Returns JNull
   \<and> useLocalStorageState True storageNullRoster parseStored ''cafe-voucher-students''
         (rosterJson DEMO_STUDENTS) = JNull
   \<and> useLocalStorageState True storageNullRoster parseStored ''cafe-voucher-students''
         (rosterJson DEMO_STUDENTS) \<noteq> rosterJson DEMO_STUDENTS
   \<and> App True storageNullRoster parseStored = TypeError"
  by (simp add: load_defs)

end
